theory Spec2Isabelle
  imports Main
begin

section \<open>The Terrain automation notebook\<close>

text \<open>
  The source is one Jupyter notebook, \<^verbatim>\<open>terrain-automation.ipynb\<close>, whose five code cells
  run top to bottom: prompt for a username and a password, exchange them for a token at
  \<^verbatim>\<open>/terrain/token\<close>, search the app catalogue, pick the first hit and fetch its
  description. The cells share the notebook's global variables; an exception raised in a
  cell ends the run.

  The embedding follows the cells line by line. What the notebook does to the outside
  world is kept in an explicit state: the list of calls of \<^verbatim>\<open>requests.get\<close> made so
  far and the list of things printed so far. The remote side is a parameter: a function
  from the calls made so far (the last one being the call to answer) to a reply.
\<close>

subsection \<open>Python values obtained from JSON\<close>

text \<open>
  \<^verbatim>\<open>r.json()\<close> yields \<^verbatim>\<open>None\<close>, a \<^verbatim>\<open>bool\<close>, a number, a \<^verbatim>\<open>str\<close>, a
  \<^verbatim>\<open>list\<close> or a \<^verbatim>\<open>dict\<close> with \<^verbatim>\<open>str\<close> keys. The notebook never computes with
  numbers, so their type is left open. A \<^verbatim>\<open>dict\<close> is written as the list of its items,
  looked up with \<^const>\<open>map_of\<close>.
\<close>

datatype 'n json =
    JNull
  | JBool bool
  | JNum 'n
  | JStr string
  | JArr "'n json list"
  | JObj "(string \<times> 'n json) list"

text \<open>A subscript is either a string (\<^verbatim>\<open>x['id']\<close>) or an integer (\<^verbatim>\<open>x[0]\<close>).\<close>

datatype key = Name string | Index int

text \<open>The exceptions that the lines of the notebook can raise.\<close>

datatype error =
    HTTPError int
  | ConnectionError
  | JSONDecodeError
  | KeyError key
  | IndexError
  | TypeError

text \<open>
  Indexing a sequence with an integer: a negative index counts from the end, and an
  index outside the sequence raises \<^verbatim>\<open>IndexError\<close>.
\<close>

definition seq_index :: "'a list \<Rightarrow> int \<Rightarrow> error + 'a" where
  "seq_index xs i =
     (let n = int (length xs) in
      if 0 \<le> i \<and> i < n then Inr (xs ! nat i)
      else if - n \<le> i \<and> i < 0 then Inr (xs ! nat (n + i))
      else Inl IndexError)"

text \<open>
  The subscript operator \<^verbatim>\<open>x[k]\<close>. A \<^verbatim>\<open>dict\<close> raises \<^verbatim>\<open>KeyError\<close> for a key it
  does not hold (its keys are strings, so it holds no integer key); a \<^verbatim>\<open>list\<close> or a
  \<^verbatim>\<open>str\<close> takes integer subscripts only, and indexing a \<^verbatim>\<open>str\<close> gives the
  one-character string at that place; \<^verbatim>\<open>None\<close>, a \<^verbatim>\<open>bool\<close> and a number are not
  subscriptable.
\<close>

fun getitem :: "'n json \<Rightarrow> key \<Rightarrow> error + 'n json" where
  "getitem (JObj kvs) (Name s) =
     (case map_of kvs s of Some v \<Rightarrow> Inr v | None \<Rightarrow> Inl (KeyError (Name s)))"
| "getitem (JObj kvs) (Index i) = Inl (KeyError (Index i))"
| "getitem (JArr xs) (Index i) = seq_index xs i"
| "getitem (JArr xs) (Name s) = Inl TypeError"
| "getitem (JStr cs) (Index i) =
     (case seq_index cs i of Inl e \<Rightarrow> Inl e | Inr c \<Rightarrow> Inr (JStr [c]))"
| "getitem (JStr cs) (Name s) = Inl TypeError"
| "getitem JNull k = Inl TypeError"
| "getitem (JBool b) k = Inl TypeError"
| "getitem (JNum n) k = Inl TypeError"

text \<open>
  \<^verbatim>\<open>"Bearer " + token\<close>: a \<^verbatim>\<open>str\<close> can only be concatenated with a \<^verbatim>\<open>str\<close>.
\<close>

definition str_add :: "string \<Rightarrow> 'n json \<Rightarrow> error + string" where
  "str_add s v = (case v of JStr t \<Rightarrow> Inr (s @ t) | _ \<Rightarrow> Inl TypeError)"

text \<open>
  \<^verbatim>\<open>str(v)\<close>, which is also what \<^verbatim>\<open>"{0}".format(v)\<close> and \<^verbatim>\<open>print(v)\<close> write. For
  a \<^verbatim>\<open>str\<close> it is the string itself. For the other values it is Python's own rendering
  (\<^verbatim>\<open>None\<close>, \<^verbatim>\<open>True\<close>, the digits of a number, the \<^verbatim>\<open>repr\<close> of a list or a
  dict), which is taken as the parameter \<open>render\<close>.
\<close>

definition py_str :: "('n json \<Rightarrow> string) \<Rightarrow> 'n json \<Rightarrow> string" where
  "py_str render v = (case v of JStr s \<Rightarrow> s | _ \<Rightarrow> render v)"

subsection \<open>Requests and responses\<close>

text \<open>
  A call \<^verbatim>\<open>requests.get(url, auth=..., headers=..., params=...)\<close>, with the keyword
  arguments that are left out at their defaults.
\<close>

record request =
  meth :: string
  url :: string
  auth :: "(string \<times> string) option"
  headers :: "(string \<times> string) list"
  params :: "(string \<times> string) list"

text \<open>
  A response, as far as the notebook looks at it: the status code, and the body as
  \<^verbatim>\<open>r.json()\<close> parses it (\<open>None\<close> when the body is not JSON).
\<close>

record 'n response =
  status_code :: int
  json_body :: "'n json option"

text \<open>
  \<^verbatim>\<open>Response.raise_for_status()\<close> of the Requests library raises \<^verbatim>\<open>HTTPError\<close> for a
  client error (400 to 499) and for a server error (500 to 599), and returns for every
  other status code.
\<close>

definition raise_for_status :: "'n response \<Rightarrow> error + unit" where
  "raise_for_status r =
     (if 400 \<le> status_code r \<and> status_code r < 500 then Inl (HTTPError (status_code r))
      else if 500 \<le> status_code r \<and> status_code r < 600 then Inl (HTTPError (status_code r))
      else Inr ())"

definition response_json :: "'n response \<Rightarrow> error + 'n json" where
  "response_json r = (case json_body r of None \<Rightarrow> Inl JSONDecodeError | Some j \<Rightarrow> Inr j)"

text \<open>
  A call of \<^verbatim>\<open>requests.get\<close> either returns a response or raises instead of returning
  one. The parameter \<open>srv\<close> decides which, from everything that has been passed to
  \<^verbatim>\<open>requests.get\<close> so far. \<open>NoReply\<close> stands for every call that raises: the remote
  side cannot be reached, or the library refuses to send what it was given (a header
  value with a line break in it, credentials it cannot encode). The model records all of
  these as \<^verbatim>\<open>ConnectionError\<close> and does not tell them apart.
\<close>

datatype 'n reply = NoReply | Reply "'n response"

type_synonym 'n server = "request list \<Rightarrow> 'n reply"

subsection \<open>The state of a run\<close>

text \<open>
  Standard output receives text (\<^verbatim>\<open>print\<close>) and pretty-printed values
  (\<^verbatim>\<open>pprint.pprint\<close>); the latter are recorded as the value handed to the printer.
\<close>

datatype 'n out = Write string | PPrint "'n json"

record 'n world =
  sent :: "request list"
  printed :: "'n out list"

type_synonym ('a, 'n) prog = "'n world \<Rightarrow> (error + 'a) \<times> 'n world"

definition ret :: "'a \<Rightarrow> ('a, 'n) prog" where
  "ret x = (\<lambda>w. (Inr x, w))"

definition lift :: "error + 'a \<Rightarrow> ('a, 'n) prog" where
  "lift v = (\<lambda>w. (v, w))"

text \<open>Sequencing: an exception skips everything that follows.\<close>

definition andthen :: "('a, 'n) prog \<Rightarrow> ('a \<Rightarrow> ('b, 'n) prog) \<Rightarrow> ('b, 'n) prog" where
  "andthen m f = (\<lambda>w. case m w of (Inl e, w') \<Rightarrow> (Inl e, w') | (Inr x, w') \<Rightarrow> f x w')"

definition emit :: "'n out \<Rightarrow> (unit, 'n) prog" where
  "emit x = (\<lambda>w. (Inr (), w\<lparr>printed := printed w @ [x]\<rparr>))"

definition requests_get :: "'n server \<Rightarrow> request \<Rightarrow> ('n response, 'n) prog" where
  "requests_get srv rq =
     (\<lambda>w. let w' = w\<lparr>sent := sent w @ [rq]\<rparr> in
        (case srv (sent w') of NoReply \<Rightarrow> Inl ConnectionError | Reply r \<Rightarrow> Inr r, w'))"

subsection \<open>The cells\<close>

definition newline :: string where
  "newline = [CHR 0x0A]"

text \<open>
  \<^verbatim>\<open>print("Username: ", end='', flush=True); username = input()\<close> and
  \<^verbatim>\<open>print("Password: ", end='', flush=True); password = getpass.getpass()\<close>.
  The two lines typed are parameters of the run. Whatever is typed is returned as it is.
\<close>

definition cell_prompt :: "string \<Rightarrow> string \<Rightarrow> (string \<times> string, 'n) prog" where
  "cell_prompt typed_name typed_secret =
     andthen (emit (Write ''Username: '')) (\<lambda>_.
     andthen (ret typed_name) (\<lambda>username.
     andthen (emit (Write ''Password: '')) (\<lambda>_.
     andthen (ret typed_secret) (\<lambda>password.
     ret (username, password)))))"

text \<open>
  \<^verbatim>\<open>r = requests.get("https://de.cyverse.org/terrain/token", auth=(username, password))\<close>,
  \<^verbatim>\<open>r.raise_for_status()\<close>, \<^verbatim>\<open>token = r.json()['access_token']\<close>,
  \<^verbatim>\<open>auth_headers = {"Authorization": "Bearer " + token}\<close>.
\<close>

definition cell_token ::
  "'n server \<Rightarrow> string \<Rightarrow> string \<Rightarrow> ((string \<times> string) list, 'n) prog" where
  "cell_token srv username password =
     andthen (requests_get srv
        \<lparr>meth = ''GET'', url = ''https://de.cyverse.org/terrain/token'',
         auth = Some (username, password), headers = [], params = []\<rparr>) (\<lambda>r.
     andthen (lift (raise_for_status r)) (\<lambda>_.
     andthen (lift (response_json r)) (\<lambda>j.
     andthen (lift (getitem j (Name ''access_token''))) (\<lambda>token.
     andthen (lift (str_add ''Bearer '' token)) (\<lambda>v.
     ret [(''Authorization'', v)])))))"

text \<open>
  \<^verbatim>\<open>query_params = {"search": "JupyterLab-with-sql-1.0.9"}\<close>,
  \<^verbatim>\<open>r = requests.get("https://de.cyverse.org/terrain/apps", headers=auth_headers, params=query_params)\<close>,
  \<^verbatim>\<open>r.raise_for_status()\<close>, \<^verbatim>\<open>pprint.pprint(r.json())\<close>. The response stays in
  the global \<^verbatim>\<open>r\<close> for the next cell.
\<close>

definition cell_search ::
  "'n server \<Rightarrow> (string \<times> string) list \<Rightarrow> ('n response, 'n) prog" where
  "cell_search srv auth_headers =
     andthen (ret [(''search'', ''JupyterLab-with-sql-1.0.9'')]) (\<lambda>query_params.
     andthen (requests_get srv
        \<lparr>meth = ''GET'', url = ''https://de.cyverse.org/terrain/apps'',
         auth = None, headers = auth_headers, params = query_params\<rparr>) (\<lambda>r.
     andthen (lift (raise_for_status r)) (\<lambda>_.
     andthen (lift (response_json r)) (\<lambda>j.
     andthen (emit (PPrint j)) (\<lambda>_.
     ret r)))))"

text \<open>
  \<^verbatim>\<open>app_listing = r.json()["apps"][0]\<close>, \<^verbatim>\<open>system_id = app_listing["system_id"]\<close>,
  \<^verbatim>\<open>app_id = app_listing["id"]\<close>, \<^verbatim>\<open>print("System ID: ", system_id)\<close>,
  \<^verbatim>\<open>print("App ID: ", app_id)\<close>. \<^verbatim>\<open>print\<close> separates its arguments by a space and
  ends the line.
\<close>

definition cell_select ::
  "('n json \<Rightarrow> string) \<Rightarrow> 'n response \<Rightarrow> ('n json \<times> 'n json, 'n) prog" where
  "cell_select render r =
     andthen (lift (response_json r)) (\<lambda>j.
     andthen (lift (getitem j (Name ''apps''))) (\<lambda>apps.
     andthen (lift (getitem apps (Index 0))) (\<lambda>app_listing.
     andthen (lift (getitem app_listing (Name ''system_id''))) (\<lambda>system_id.
     andthen (lift (getitem app_listing (Name ''id''))) (\<lambda>app_id.
     andthen (emit (Write (''System ID: '' @ '' '' @ py_str render system_id @ newline))) (\<lambda>_.
     andthen (emit (Write (''App ID: '' @ '' '' @ py_str render app_id @ newline))) (\<lambda>_.
     ret (system_id, app_id))))))))"

text \<open>
  \<^verbatim>\<open>url = "https://de.cyverse.org/terrain/apps/{0}/{1}".format(system_id, app_id)\<close>,
  \<^verbatim>\<open>r = requests.get(url, headers=auth_headers)\<close>, \<^verbatim>\<open>r.raise_for_status()\<close>,
  \<^verbatim>\<open>pprint.pprint(r.json())\<close>.
\<close>

definition detail_url :: "('n json \<Rightarrow> string) \<Rightarrow> 'n json \<Rightarrow> 'n json \<Rightarrow> string" where
  "detail_url render system_id app_id =
     ''https://de.cyverse.org/terrain/apps/'' @ py_str render system_id @ ''/''
       @ py_str render app_id"

definition cell_detail ::
  "'n server \<Rightarrow> ('n json \<Rightarrow> string) \<Rightarrow> (string \<times> string) list \<Rightarrow> 'n json \<Rightarrow> 'n json
     \<Rightarrow> (unit, 'n) prog" where
  "cell_detail srv render auth_headers system_id app_id =
     andthen (ret (detail_url render system_id app_id)) (\<lambda>url.
     andthen (requests_get srv
        \<lparr>meth = ''GET'', url = url, auth = None, headers = auth_headers, params = []\<rparr>) (\<lambda>r.
     andthen (lift (raise_for_status r)) (\<lambda>_.
     andthen (lift (response_json r)) (\<lambda>j.
     emit (PPrint j)))))"

text \<open>The notebook, run from its first cell to its last.\<close>

definition notebook ::
  "'n server \<Rightarrow> ('n json \<Rightarrow> string) \<Rightarrow> string \<Rightarrow> string \<Rightarrow> (unit, 'n) prog" where
  "notebook srv render typed_name typed_secret =
     andthen (cell_prompt typed_name typed_secret) (\<lambda>(username, password).
     andthen (cell_token srv username password) (\<lambda>auth_headers.
     andthen (cell_search srv auth_headers) (\<lambda>r.
     andthen (cell_select render r) (\<lambda>(system_id, app_id).
     cell_detail srv render auth_headers system_id app_id))))"

definition run ::
  "'n server \<Rightarrow> ('n json \<Rightarrow> string) \<Rightarrow> string \<Rightarrow> string \<Rightarrow> (error + unit) \<times> 'n world" where
  "run srv render typed_name typed_secret =
     notebook srv render typed_name typed_secret \<lparr>sent = [], printed = []\<rparr>"

subsection \<open>The three calls, and what a cell makes of a reply\<close>

text \<open>
  The definitions of this subsection name parts of the cells, so that the statements
  below can refer to them. The lemmas \<open>cell_token_eq\<close>, \<open>cell_search_select_eq\<close>,
  \<open>cell_detail_eq\<close> and \<open>run_eq\<close> show that the cells compute exactly these.
\<close>

definition token_request :: "string \<Rightarrow> string \<Rightarrow> request" where
  "token_request u p =
     \<lparr>meth = ''GET'', url = ''https://de.cyverse.org/terrain/token'',
      auth = Some (u, p), headers = [], params = []\<rparr>"

definition search_request :: "(string \<times> string) list \<Rightarrow> request" where
  "search_request hs =
     \<lparr>meth = ''GET'', url = ''https://de.cyverse.org/terrain/apps'',
      auth = None, headers = hs, params = [(''search'', ''JupyterLab-with-sql-1.0.9'')]\<rparr>"

definition detail_request :: "(string \<times> string) list \<Rightarrow> string \<Rightarrow> request" where
  "detail_request hs u = \<lparr>meth = ''GET'', url = u, auth = None, headers = hs, params = []\<rparr>"

definition bearer_headers :: "string \<Rightarrow> (string \<times> string) list" where
  "bearer_headers t = [(''Authorization'', ''Bearer '' @ t)]"

text \<open>
  \<^verbatim>\<open>requests.get\<close>, \<^verbatim>\<open>raise_for_status\<close> and \<^verbatim>\<open>json\<close> in a row, as the token,
  search and detail cells all do.
\<close>

definition answer_json :: "'n reply \<Rightarrow> error + 'n json" where
  "answer_json rp =
     (case rp of NoReply \<Rightarrow> Inl ConnectionError
      | Reply r \<Rightarrow> (case raise_for_status r of Inl e \<Rightarrow> Inl e | Inr _ \<Rightarrow> response_json r))"

definition bearer_of :: "'n json \<Rightarrow> error + (string \<times> string) list" where
  "bearer_of j =
     (case getitem j (Name ''access_token'') of Inl e \<Rightarrow> Inl e
      | Inr tok \<Rightarrow> (case str_add ''Bearer '' tok of Inl e \<Rightarrow> Inl e
          | Inr v \<Rightarrow> Inr [(''Authorization'', v)]))"

definition first_app :: "'n json \<Rightarrow> error + 'n json \<times> 'n json" where
  "first_app j =
     (case getitem j (Name ''apps'') of Inl e \<Rightarrow> Inl e
      | Inr apps \<Rightarrow> (case getitem apps (Index 0) of Inl e \<Rightarrow> Inl e
      | Inr a \<Rightarrow> (case getitem a (Name ''system_id'') of Inl e \<Rightarrow> Inl e
      | Inr s \<Rightarrow> (case getitem a (Name ''id'') of Inl e \<Rightarrow> Inl e
      | Inr i \<Rightarrow> Inr (s, i)))))"

definition prompts :: "'n out list" where
  "prompts = [Write ''Username: '', Write ''Password: '']"

definition id_lines :: "('n json \<Rightarrow> string) \<Rightarrow> 'n json \<Rightarrow> 'n json \<Rightarrow> 'n out list" where
  "id_lines render s i =
     [Write (''System ID: '' @ '' '' @ py_str render s @ newline),
      Write (''App ID: '' @ '' '' @ py_str render i @ newline)]"

text \<open>A reply with a status code from 200 to 299 whose body is the JSON value \<open>j\<close>.\<close>

definition answers_ok :: "'n reply \<Rightarrow> 'n json \<Rightarrow> bool" where
  "answers_ok rp j =
     (case rp of NoReply \<Rightarrow> False
      | Reply r \<Rightarrow> 200 \<le> status_code r \<and> status_code r < 300 \<and> json_body r = Some j)"

subsection \<open>Mock servers for the examples\<close>

text \<open>A server that answers the first call with its first reply, the second with its second, and so on.\<close>

fun scripted :: "'n reply list \<Rightarrow> 'n server" where
  "scripted [] calls = NoReply"
| "scripted (a # as) [] = NoReply"
| "scripted (a # as) [c] = a"
| "scripted (a # as) (c # c' # cs) = scripted as (c' # cs)"

definition reply_with :: "int \<Rightarrow> 'n json \<Rightarrow> 'n reply" where
  "reply_with c j = Reply \<lparr>status_code = c, json_body = Some j\<rparr>"

definition token_body :: "int json" where
  "token_body = JObj [(''access_token'', JStr ''abc123'')]"

definition apps_body :: "int json" where
  "apps_body =
     JObj [(''apps'', JArr [JObj [(''system_id'', JStr ''de''), (''id'', JStr ''X'')],
                            JObj [(''system_id'', JStr ''agave''), (''id'', JStr ''Y'')]])]"

definition detail_body :: "int json" where
  "detail_body = JObj [(''id'', JStr ''X''), (''name'', JStr ''JupyterLab-with-sql-1.0.9'')]"

definition mock_terrain :: "int server" where
  "mock_terrain = scripted [reply_with 200 token_body, reply_with 200 apps_body,
                            reply_with 200 detail_body]"

text \<open>Python's rendering of \<^verbatim>\<open>None\<close>, \<^verbatim>\<open>True\<close> and \<^verbatim>\<open>False\<close>; the examples hold no
  other identifier that is not a string.\<close>

definition atom_render :: "int json \<Rightarrow> string" where
  "atom_render v =
     (case v of JNull \<Rightarrow> ''None'' | JBool b \<Rightarrow> (if b then ''True'' else ''False'') | _ \<Rightarrow> [])"

text \<open>The token endpoint rejects the credentials.\<close>

definition unauthorized_terrain :: "int server" where
  "unauthorized_terrain = scripted [Reply \<lparr>status_code = 401, json_body = None\<rparr>]"

text \<open>The token endpoint answers 300 (Multiple Choices) with a body that holds a token.\<close>

definition ambiguous_terrain :: "int server" where
  "ambiguous_terrain = scripted [reply_with 300 token_body, reply_with 200 apps_body,
                                 reply_with 200 detail_body]"

text \<open>The search endpoint answers 300 with a listing in its body.\<close>

definition lenient_terrain :: "int server" where
  "lenient_terrain = scripted [reply_with 200 token_body, reply_with 300 apps_body,
                               reply_with 200 detail_body]"

text \<open>The search endpoint is down.\<close>

definition outage_terrain :: "int server" where
  "outage_terrain = scripted [reply_with 200 token_body,
                              Reply \<lparr>status_code = 503, json_body = None\<rparr>]"

text \<open>The search finds nothing.\<close>

definition empty_catalog :: "int server" where
  "empty_catalog = scripted [reply_with 200 token_body, reply_with 200 (JObj [(''apps'', JArr [])])]"

text \<open>The token endpoint answers 200 with an object that has no token in it.\<close>

definition keyless_terrain :: "int server" where
  "keyless_terrain = scripted [reply_with 200 (JObj [(''error'', JStr ''try again'')])]"

text \<open>The token endpoint answers 200 with \<^verbatim>\<open>{"access_token": null}\<close>.\<close>

definition null_token_terrain :: "int server" where
  "null_token_terrain = scripted [reply_with 200 (JObj [(''access_token'', JNull)])]"

text \<open>The first hit has a system identifier outside \<^verbatim>\<open>de\<close> and \<^verbatim>\<open>agave\<close>, and no app identifier.\<close>

definition odd_body :: "int json" where
  "odd_body = JObj [(''apps'', JArr [JObj [(''system_id'', JStr ''tapis''), (''id'', JNull)]])]"

definition odd_catalog :: "int server" where
  "odd_catalog = scripted [reply_with 200 token_body, reply_with 200 odd_body,
                           reply_with 200 detail_body]"

section \<open>What a run does\<close>

subsection \<open>The cells, one by one\<close>

lemmas prog_defs = ret_def lift_def andthen_def emit_def requests_get_def

lemma cell_prompt_eq:
  "cell_prompt a b w = (Inr (a, b), w\<lparr>printed := printed w @ prompts\<rparr>)"
  by (simp add: cell_prompt_def prog_defs prompts_def)

lemma cell_token_eq:
  "cell_token srv u p w =
     (case answer_json (srv (sent w @ [token_request u p])) of Inl e \<Rightarrow> Inl e
        | Inr j \<Rightarrow> bearer_of j,
      w\<lparr>sent := sent w @ [token_request u p]\<rparr>)"
  by (simp add: cell_token_def prog_defs token_request_def answer_json_def bearer_of_def Let_def
      split: reply.split sum.split)

lemma cell_search_select_eq:
  "andthen (cell_search srv hs) (\<lambda>r. andthen (cell_select render r) f) w =
     (case answer_json (srv (sent w @ [search_request hs])) of
        Inl e \<Rightarrow> (Inl e, w\<lparr>sent := sent w @ [search_request hs]\<rparr>)
      | Inr j \<Rightarrow> (case first_app j of
          Inl e \<Rightarrow> (Inl e, w\<lparr>sent := sent w @ [search_request hs],
                              printed := printed w @ [PPrint j]\<rparr>)
        | Inr x \<Rightarrow> f x (w\<lparr>sent := sent w @ [search_request hs],
                            printed := printed w @ PPrint j # id_lines render (fst x) (snd x)\<rparr>)))"
  by (simp add: cell_search_def cell_select_def prog_defs search_request_def answer_json_def
      first_app_def id_lines_def response_json_def Let_def
      split: reply.split sum.split option.split)

lemma cell_detail_eq:
  "cell_detail srv render hs s i w =
     (case answer_json (srv (sent w @ [detail_request hs (detail_url render s i)])) of
        Inl e \<Rightarrow> (Inl e, w\<lparr>sent := sent w @ [detail_request hs (detail_url render s i)]\<rparr>)
      | Inr j \<Rightarrow> (Inr (), w\<lparr>sent := sent w @ [detail_request hs (detail_url render s i)],
                             printed := printed w @ [PPrint j]\<rparr>))"
  by (simp add: cell_detail_def prog_defs detail_request_def answer_json_def Let_def
      split: reply.split sum.split)

lemma andthen_pair: "andthen m f w = (case m w of (Inl e, w') \<Rightarrow> (Inl e, w') | (Inr x, w') \<Rightarrow> f x w')"
  by (simp add: andthen_def)

lemma run_eq:
  "run srv render u p =
     (case answer_json (srv [token_request u p]) of
        Inl e \<Rightarrow> (Inl e, \<lparr>sent = [token_request u p], printed = prompts\<rparr>)
      | Inr j1 \<Rightarrow>
     (case bearer_of j1 of
        Inl e \<Rightarrow> (Inl e, \<lparr>sent = [token_request u p], printed = prompts\<rparr>)
      | Inr hs \<Rightarrow>
     (case answer_json (srv [token_request u p, search_request hs]) of
        Inl e \<Rightarrow> (Inl e, \<lparr>sent = [token_request u p, search_request hs], printed = prompts\<rparr>)
      | Inr j2 \<Rightarrow>
     (case first_app j2 of
        Inl e \<Rightarrow> (Inl e, \<lparr>sent = [token_request u p, search_request hs],
                            printed = prompts @ [PPrint j2]\<rparr>)
      | Inr x \<Rightarrow>
     (case answer_json (srv [token_request u p, search_request hs,
                             detail_request hs (detail_url render (fst x) (snd x))]) of
        Inl e \<Rightarrow> (Inl e, \<lparr>sent = [token_request u p, search_request hs,
                                    detail_request hs (detail_url render (fst x) (snd x))],
                            printed = prompts @ PPrint j2 # id_lines render (fst x) (snd x)\<rparr>)
      | Inr j3 \<Rightarrow> (Inr (), \<lparr>sent = [token_request u p, search_request hs,
                                    detail_request hs (detail_url render (fst x) (snd x))],
                            printed = prompts @ PPrint j2 # id_lines render (fst x) (snd x)
                                        @ [PPrint j3]\<rparr>))))))"
  unfolding run_def notebook_def
  apply (subst andthen_pair)
  apply (simp only: cell_prompt_eq prod.case sum.case)
  apply (subst andthen_pair)
  apply (simp only: cell_token_eq)
  apply (simp add: cell_search_select_eq cell_detail_eq split_beta split: sum.split)
  done

lemma run_cases [consumes 1, case_names token_call token_read search_call selection detail_call completed]:
  assumes "run srv render u p = (res, w)"
  obtains
    e where "answer_json (srv [token_request u p]) = Inl e"
      and "res = Inl e"
      and "w = \<lparr>sent = [token_request u p], printed = prompts\<rparr>"
  | j1 e where "answer_json (srv [token_request u p]) = Inr j1"
      and "bearer_of j1 = Inl e"
      and "res = Inl e"
      and "w = \<lparr>sent = [token_request u p], printed = prompts\<rparr>"
  | j1 hs e where "answer_json (srv [token_request u p]) = Inr j1"
      and "bearer_of j1 = Inr hs"
      and "answer_json (srv [token_request u p, search_request hs]) = Inl e"
      and "res = Inl e"
      and "w = \<lparr>sent = [token_request u p, search_request hs], printed = prompts\<rparr>"
  | j1 hs j2 e where "answer_json (srv [token_request u p]) = Inr j1"
      and "bearer_of j1 = Inr hs"
      and "answer_json (srv [token_request u p, search_request hs]) = Inr j2"
      and "first_app j2 = Inl e"
      and "res = Inl e"
      and "w = \<lparr>sent = [token_request u p, search_request hs],
                 printed = prompts @ [PPrint j2]\<rparr>"
  | j1 hs j2 s i e where "answer_json (srv [token_request u p]) = Inr j1"
      and "bearer_of j1 = Inr hs"
      and "answer_json (srv [token_request u p, search_request hs]) = Inr j2"
      and "first_app j2 = Inr (s, i)"
      and "answer_json (srv [token_request u p, search_request hs,
             detail_request hs (detail_url render s i)]) = Inl e"
      and "res = Inl e"
      and "w = \<lparr>sent = [token_request u p, search_request hs,
                         detail_request hs (detail_url render s i)],
                 printed = prompts @ PPrint j2 # id_lines render s i\<rparr>"
  | j1 hs j2 s i j3 where "answer_json (srv [token_request u p]) = Inr j1"
      and "bearer_of j1 = Inr hs"
      and "answer_json (srv [token_request u p, search_request hs]) = Inr j2"
      and "first_app j2 = Inr (s, i)"
      and "answer_json (srv [token_request u p, search_request hs,
             detail_request hs (detail_url render s i)]) = Inr j3"
      and "res = Inr ()"
      and "w = \<lparr>sent = [token_request u p, search_request hs,
                         detail_request hs (detail_url render s i)],
                 printed = prompts @ PPrint j2 # id_lines render s i @ [PPrint j3]\<rparr>"
  using assms unfolding run_eq
  by (auto split: sum.splits)

lemma seq_index_0: "seq_index xs 0 = (case xs of [] \<Rightarrow> Inl IndexError | x # _ \<Rightarrow> Inr x)"
  by (cases xs) (simp_all add: seq_index_def)

lemma answer_json_err:
  "400 \<le> status_code r \<Longrightarrow> status_code r < 600 \<Longrightarrow>
     answer_json (Reply r) = Inl (HTTPError (status_code r))"
  by (simp add: answer_json_def raise_for_status_def)

lemma answer_json_ok:
  "\<not> (400 \<le> status_code r \<and> status_code r < 600) \<Longrightarrow>
     answer_json (Reply r) = response_json r"
  by (auto simp: answer_json_def raise_for_status_def)

lemma response_json_not_http: "response_json r \<noteq> Inl (HTTPError c)"
  by (simp add: response_json_def split: option.split)

lemma answer_json_http_iff:
  "answer_json rp = Inl (HTTPError c) \<longleftrightarrow>
     (\<exists>r. rp = Reply r \<and> status_code r = c \<and> 400 \<le> c \<and> c < 600)"
proof (cases rp)
  case NoReply
  then show ?thesis by (simp add: answer_json_def)
next
  case (Reply r)
  show ?thesis
  proof (cases "400 \<le> status_code r \<and> status_code r < 600")
    case True
    with Reply show ?thesis by (auto simp: answer_json_err)
  next
    case False
    with Reply show ?thesis by (auto simp: answer_json_ok response_json_not_http)
  qed
qed

lemma seq_index_not_http: "seq_index xs i \<noteq> Inl (HTTPError c)"
  by (simp add: seq_index_def Let_def)

lemma getitem_not_http: "getitem j k \<noteq> Inl (HTTPError c)"
  by (cases "(j, k)" rule: getitem.cases)
    (auto simp: seq_index_not_http split: option.splits sum.splits)

lemma bearer_of_not_http: "bearer_of j \<noteq> Inl (HTTPError c)"
  by (auto simp: bearer_of_def str_add_def getitem_not_http split: sum.splits json.splits)

lemma first_app_not_http: "first_app j \<noteq> Inl (HTTPError c)"
  by (auto simp: first_app_def getitem_not_http split: sum.splits)

lemma bearer_of_token:
  "map_of kvs ''access_token'' = Some (JStr t) \<Longrightarrow>
     bearer_of (JObj kvs) = Inr [(''Authorization'', ''Bearer '' @ t)]"
  by (simp add: bearer_of_def str_add_def)

lemma first_app_head:
  assumes "map_of kvs ''apps'' = Some (JArr (a # rest))"
  shows "first_app (JObj kvs) =
     (case getitem a (Name ''system_id'') of Inl e \<Rightarrow> Inl e
      | Inr s \<Rightarrow> (case getitem a (Name ''id'') of Inl e \<Rightarrow> Inl e | Inr i \<Rightarrow> Inr (s, i)))"
  using assms by (simp add: first_app_def seq_index_0)

lemma error_status_ends_run:
  assumes prefixes: "\<And>k. Suc k < length xs \<Longrightarrow> \<exists>j. answer_json (srv (take (Suc k) xs)) = Inr j"
    and k: "k < length xs"
    and rp: "srv (take (Suc k) xs) = Reply r"
    and st: "400 \<le> status_code r" "status_code r < 600"
  shows "answer_json (srv xs) = Inl (HTTPError (status_code r)) \<and> length xs = Suc k"
proof -
  have e: "answer_json (srv (take (Suc k) xs)) = Inl (HTTPError (status_code r))"
    using rp st by (simp add: answer_json_err)
  have "\<not> Suc k < length xs"
    using prefixes [of k] e by auto
  with k have len: "length xs = Suc k"
    by simp
  then have "take (Suc k) xs = xs"
    by simp
  with e len show ?thesis
    by simp
qed

lemma run_prefixes:
  assumes "run srv render u p = (res, w)" and "Suc k < length (sent w)"
  shows "\<exists>j. answer_json (srv (take (Suc k) (sent w))) = Inr j"
  using assms(1)
proof (cases rule: run_cases)
  case (token_call e)
  with assms(2) show ?thesis by simp
next
  case (token_read j1 e)
  with assms(2) show ?thesis by simp
next
  case (search_call j1 hs e)
  with assms(2) show ?thesis by simp
next
  case (selection j1 hs j2 e)
  with assms(2) show ?thesis by simp
next
  case (detail_call j1 hs j2 s i e)
  with assms(2) show ?thesis by (cases k) auto
next
  case (completed j1 hs j2 s i j3)
  with assms(2) show ?thesis by (cases k) auto
qed

lemma run_last_answer:
  assumes "run srv render u p = (res, w)"
  shows "(\<forall>e. answer_json (srv (sent w)) = Inl e \<longrightarrow> res = Inl e)
       \<and> (\<forall>c. res = Inl (HTTPError c) \<longrightarrow> answer_json (srv (sent w)) = Inl (HTTPError c))
       \<and> length (sent w) \<le> 3"
  using assms
  by (cases rule: run_cases) (auto simp: bearer_of_not_http first_app_not_http)

lemma answers_ok_json: "answers_ok rp j \<Longrightarrow> answer_json rp = Inr j"
  by (cases rp) (simp_all add: answers_ok_def answer_json_ok response_json_def)

lemma bearer_of_headers:
  "map_of kvs ''access_token'' = Some (JStr t) \<Longrightarrow> bearer_of (JObj kvs) = Inr (bearer_headers t)"
  by (simp add: bearer_of_token bearer_headers_def)

lemma first_app_getitem:
  "getitem j (Name ''apps'') = Inr apps \<Longrightarrow> getitem apps (Index 0) = Inr a \<Longrightarrow>
   getitem a (Name ''system_id'') = Inr s \<Longrightarrow> getitem a (Name ''id'') = Inr i \<Longrightarrow>
   first_app j = Inr (s, i)"
  by (simp add: first_app_def)

lemma run_to_detail:
  assumes "answers_ok (srv [token_request u p]) (JObj kvs)"
    and "map_of kvs ''access_token'' = Some (JStr t)"
    and "answers_ok (srv [token_request u p, search_request (bearer_headers t)]) j"
    and "first_app j = Inr (s, i)"
  shows "sent (snd (run srv render u p)) =
           [token_request u p, search_request (bearer_headers t),
            detail_request (bearer_headers t) (detail_url render s i)]
       \<and> take 5 (printed (snd (run srv render u p))) = prompts @ PPrint j # id_lines render s i"
proof -
  have "answer_json (srv [token_request u p]) = Inr (JObj kvs)"
    using assms(1) by (rule answers_ok_json)
  moreover have "bearer_of (JObj kvs) = Inr (bearer_headers t)"
    using assms(2) by (rule bearer_of_headers)
  moreover have "answer_json (srv [token_request u p, search_request (bearer_headers t)]) = Inr j"
    using assms(3) by (rule answers_ok_json)
  ultimately show ?thesis
    using assms(4) by (simp add: run_eq prompts_def id_lines_def split: sum.split)
qed

subsection \<open>The mock servers, evaluated\<close>

lemma answer_json_reply_with:
  "answer_json (reply_with c j) = (if 400 \<le> c \<and> c < 600 then Inl (HTTPError c) else Inr j)"
  by (simp add: reply_with_def answer_json_def raise_for_status_def response_json_def)

lemma answers_ok_reply_with:
  "answers_ok (reply_with c j) j' \<longleftrightarrow> 200 \<le> c \<and> c < 300 \<and> j = j'"
  by (simp add: reply_with_def answers_ok_def)

lemma bearer_of_token_body: "bearer_of token_body = Inr (bearer_headers ''abc123'')"
  by (simp add: token_body_def bearer_of_headers)

lemma first_app_apps_body: "first_app apps_body = Inr (JStr ''de'', JStr ''X'')"
  by (simp add: apps_body_def first_app_def seq_index_0)

lemma detail_url_de_X:
  "detail_url render (JStr ''de'') (JStr ''X'') = ''https://de.cyverse.org/terrain/apps/de/X''"
  by (simp add: detail_url_def py_str_def)

lemma id_lines_de_X:
  "id_lines render (JStr ''de'') (JStr ''X'') =
     [Write (''System ID:  de'' @ newline), Write (''App ID:  X'' @ newline)]"
  by (simp add: id_lines_def py_str_def)

lemmas mock_eval = answer_json_reply_with bearer_of_token_body first_app_apps_body
  detail_url_de_X id_lines_de_X


lemma outage_terrain_run:
  "run outage_terrain render u p =
     (Inl (HTTPError 503),
      \<lparr>sent = [token_request u p, search_request (bearer_headers ''abc123'')],
       printed = prompts\<rparr>)"
  by (simp add: run_eq outage_terrain_def mock_eval answer_json_err)

lemma mock_terrain_token: "answers_ok (mock_terrain [c]) token_body"
  by (simp add: mock_terrain_def answers_ok_reply_with)

lemma mock_terrain_search: "answers_ok (mock_terrain [c, d]) apps_body"
  by (simp add: mock_terrain_def answers_ok_reply_with)


lemma odd_catalog_token: "answers_ok (odd_catalog [c]) token_body"
  by (simp add: odd_catalog_def answers_ok_reply_with)

lemma odd_catalog_search: "answers_ok (odd_catalog [c, d]) odd_body"
  by (simp add: odd_catalog_def answers_ok_reply_with)

lemma empty_catalog_token: "answers_ok (empty_catalog [c]) token_body"
  by (simp add: empty_catalog_def answers_ok_reply_with)

lemma empty_catalog_search: "answers_ok (empty_catalog [c, d]) (JObj [(''apps'', JArr [])])"
  by (simp add: empty_catalog_def answers_ok_reply_with)

section \<open>The claims\<close>

subsection \<open>C1\<close>

text \<open>
  Claim C1. When the token call is answered with a status from 200 to 299 and a JSON
  object whose \<^verbatim>\<open>access_token\<close> is the string \<open>t\<close>, the run goes on to the search
  call, and every call after the token call (the search, and the detail fetch when the
  run gets that far) is made with the headers \<^verbatim>\<open>{"Authorization": "Bearer " + t}\<close>:
  the token is appended to \<^verbatim>\<open>"Bearer "\<close> as it is.
\<close>

theorem bearer_header_verbatim:
  assumes "answers_ok (srv [token_request u p]) (JObj kvs)"
    and "map_of kvs ''access_token'' = Some (JStr t)"
  shows "sent (snd (run srv render u p)) =
           [token_request u p, search_request [(''Authorization'', ''Bearer '' @ t)]]
       \<or> (\<exists>x. sent (snd (run srv render u p)) =
           [token_request u p, search_request [(''Authorization'', ''Bearer '' @ t)],
            detail_request [(''Authorization'', ''Bearer '' @ t)] x])"
proof -
  obtain res w where rw: "run srv render u p = (res, w)"
    by (cases "run srv render u p")
  have a: "answer_json (srv [token_request u p]) = Inr (JObj kvs)"
    using assms(1) by (rule answers_ok_json)
  have b: "bearer_of (JObj kvs) = Inr [(''Authorization'', ''Bearer '' @ t)]"
    using assms(2) by (rule bearer_of_token)
  from rw have "sent w = [token_request u p, search_request [(''Authorization'', ''Bearer '' @ t)]]
       \<or> (\<exists>x. sent w =
           [token_request u p, search_request [(''Authorization'', ''Bearer '' @ t)],
            detail_request [(''Authorization'', ''Bearer '' @ t)] x])"
    by (cases rule: run_cases) (use a b in auto)
  with rw show ?thesis
    by simp
qed

theorem bearer_header_verbatim_witness:
  "answers_ok (mock_terrain [token_request ''alice'' ''secret''])
     (JObj [(''access_token'', JStr ''abc123'')])
   \<and> (sent (snd (run mock_terrain atom_render ''alice'' ''secret'')) =
         [token_request ''alice'' ''secret'',
          search_request [(''Authorization'', ''Bearer abc123'')]]
      \<or> (\<exists>x. sent (snd (run mock_terrain atom_render ''alice'' ''secret'')) =
         [token_request ''alice'' ''secret'',
          search_request [(''Authorization'', ''Bearer abc123'')],
          detail_request [(''Authorization'', ''Bearer abc123'')] x]))"
proof -
  have tok: "answers_ok (mock_terrain [token_request ''alice'' ''secret''])
      (JObj [(''access_token'', JStr ''abc123'')])"
    by (simp add: mock_terrain_def answers_ok_reply_with token_body_def)
  from bearer_header_verbatim [where srv = mock_terrain and u = "''alice''" and p = "''secret''"
      and kvs = "[(''access_token'', JStr ''abc123'')]" and t = "''abc123''"
      and render = atom_render, OF tok] tok
  show ?thesis
    by simp
qed

subsection \<open>C2\<close>

text \<open>
  Claim C2 as it is written does not hold: 300 is not a status from 200 to 299, and
  \<^verbatim>\<open>raise_for_status\<close> does not raise for it. With the search answered 300 and a
  listing in the body, the run raises nothing at all and goes on to the detail fetch.
\<close>

theorem status_300_raises_nothing:
  "lenient_terrain [token_request ''alice'' ''secret'', search_request (bearer_headers ''abc123'')]
     = Reply \<lparr>status_code = 300, json_body = Some apps_body\<rparr>
   \<and> fst (run lenient_terrain atom_render ''alice'' ''secret'') = Inr ()
   \<and> sent (snd (run lenient_terrain atom_render ''alice'' ''secret'')) =
       [token_request ''alice'' ''secret'', search_request (bearer_headers ''abc123''),
        detail_request (bearer_headers ''abc123'') ''https://de.cyverse.org/terrain/apps/de/X'']"
  by (simp add: run_eq lenient_terrain_def mock_eval) (simp add: reply_with_def)

text \<open>
  Claim C2, as the code has it. \<^verbatim>\<open>raise_for_status\<close> raises for the status codes from
  400 to 599, not for every status outside 200 to 299. For every call that the run
  makes: if the reply to it has a status from 400 to 599, the run ends with the
  \<^verbatim>\<open>HTTPError\<close> of that status and that call is the last one made (nothing is tried
  again). A run ends with an \<^verbatim>\<open>HTTPError\<close> only in this way: the reply to its last
  call has that status, which lies between 400 and 599. A run makes at most three calls.
\<close>

theorem error_status_raises_http_error:
  assumes "run srv render u p = (res, w)"
  shows "(\<forall>k r. k < length (sent w) \<and> srv (take (Suc k) (sent w)) = Reply r
              \<and> 400 \<le> status_code r \<and> status_code r < 600
            \<longrightarrow> res = Inl (HTTPError (status_code r)) \<and> length (sent w) = Suc k)
       \<and> (\<forall>c. res = Inl (HTTPError c)
            \<longrightarrow> (\<exists>r. srv (sent w) = Reply r \<and> status_code r = c \<and> 400 \<le> c \<and> c < 600))
       \<and> length (sent w) \<le> 3"
proof -
  note last = run_last_answer [OF assms]
  have one: "res = Inl (HTTPError (status_code r)) \<and> length (sent w) = Suc k"
    if k: "k < length (sent w)" and rp: "srv (take (Suc k) (sent w)) = Reply r"
      and lo: "400 \<le> status_code r" and hi: "status_code r < 600" for k r
  proof -
    have "answer_json (srv (sent w)) = Inl (HTTPError (status_code r)) \<and> length (sent w) = Suc k"
    proof (rule error_status_ends_run [where xs = "sent w" and srv = srv and k = k and r = r])
      fix k'
      assume "Suc k' < length (sent w)"
      with assms show "\<exists>j. answer_json (srv (take (Suc k') (sent w))) = Inr j"
        by (rule run_prefixes)
    qed (fact k rp lo hi)+
    with last show ?thesis
      by blast
  qed
  have two: "\<exists>r. srv (sent w) = Reply r \<and> status_code r = c \<and> 400 \<le> c \<and> c < 600"
    if "res = Inl (HTTPError c)" for c
  proof -
    from last that have "answer_json (srv (sent w)) = Inl (HTTPError c)"
      by blast
    then show ?thesis
      by (simp add: answer_json_http_iff)
  qed
  from one two last show ?thesis
    by blast
qed

theorem error_status_raises_http_error_witness:
  "outage_terrain [token_request ''alice'' ''secret'', search_request (bearer_headers ''abc123'')]
     = Reply \<lparr>status_code = 503, json_body = None\<rparr>
   \<and> fst (run outage_terrain atom_render ''alice'' ''secret'') = Inl (HTTPError 503)
   \<and> length (sent (snd (run outage_terrain atom_render ''alice'' ''secret''))) = 2"
proof -
  let ?calls = "[token_request ''alice'' ''secret'', search_request (bearer_headers ''abc123'')]"
  let ?w = "\<lparr>sent = ?calls, printed = prompts :: int out list\<rparr>"
  let ?r = "\<lparr>status_code = 503, json_body = None :: int json option\<rparr>"
  have r: "run outage_terrain atom_render ''alice'' ''secret'' = (Inl (HTTPError 503), ?w)"
    by (rule outage_terrain_run)
  have a: "outage_terrain ?calls = Reply ?r"
    by (simp add: outage_terrain_def)
  have h: "Suc 0 < length (sent ?w) \<and> outage_terrain (take (Suc (Suc 0)) (sent ?w)) = Reply ?r
      \<and> 400 \<le> status_code ?r \<and> status_code ?r < 600"
    using a by simp
  note inst = error_status_raises_http_error [OF r, THEN conjunct1, rule_format,
      where k = "Suc 0" and r = ?r]
  from inst [OF h] a r show ?thesis
    by simp
qed

subsection \<open>C3\<close>

text \<open>
  Claim C3. When the search is answered with success and an object whose \<^verbatim>\<open>apps\<close> is
  a non-empty list, and the first element of the list is an object with the strings \<open>s\<close>
  and \<open>i\<close> under \<^verbatim>\<open>system_id\<close> and \<^verbatim>\<open>id\<close>, the detail fetch is made with
  exactly \<open>s\<close> and \<open>i\<close>, whatever the other elements of the list are. The listing is
  printed as the server returned it, followed by the two identifiers.
\<close>

theorem detail_uses_first_listing:
  assumes "answers_ok (srv [token_request u p]) (JObj kvs1)"
    and "map_of kvs1 ''access_token'' = Some (JStr t)"
    and "answers_ok (srv [token_request u p, search_request (bearer_headers t)]) (JObj kvs2)"
    and "map_of kvs2 ''apps'' = Some (JArr (JObj entry # others))"
    and "map_of entry ''system_id'' = Some (JStr s)"
    and "map_of entry ''id'' = Some (JStr i)"
  shows "sent (snd (run srv render u p)) =
           [token_request u p, search_request (bearer_headers t),
            detail_request (bearer_headers t) (''https://de.cyverse.org/terrain/apps/'' @ s @ ''/'' @ i)]
       \<and> take 5 (printed (snd (run srv render u p))) =
           prompts @ [PPrint (JObj kvs2), Write (''System ID:  '' @ s @ newline),
                      Write (''App ID:  '' @ i @ newline)]"
proof -
  have "first_app (JObj kvs2) = Inr (JStr s, JStr i)"
    using assms(5,6) by (simp add: first_app_head [OF assms(4)])
  from run_to_detail [OF assms(1-3) this, of render] show ?thesis
    by (simp add: detail_url_def py_str_def id_lines_def)
qed

theorem detail_uses_first_listing_witness:
  "answers_ok (mock_terrain [token_request ''alice'' ''secret'',
      search_request (bearer_headers ''abc123'')]) apps_body
   \<and> sent (snd (run mock_terrain atom_render ''alice'' ''secret'')) =
       [token_request ''alice'' ''secret'', search_request (bearer_headers ''abc123''),
        detail_request (bearer_headers ''abc123'') ''https://de.cyverse.org/terrain/apps/de/X'']
   \<and> take 5 (printed (snd (run mock_terrain atom_render ''alice'' ''secret''))) =
       prompts @ [PPrint apps_body, Write (''System ID:  de'' @ newline),
                  Write (''App ID:  X'' @ newline)]"
proof -
  note tok = mock_terrain_token [of "token_request ''alice'' ''secret''", unfolded token_body_def]
  note srch = mock_terrain_search [of "token_request ''alice'' ''secret''"
      "search_request (bearer_headers ''abc123'')", unfolded apps_body_def]
  from detail_uses_first_listing [where srv = mock_terrain and render = atom_render
      and u = "''alice''" and p = "''secret''" and t = "''abc123''" and s = "''de''" and i = "''X''"
      and entry = "[(''system_id'', JStr ''de''), (''id'', JStr ''X'')]"
      and others = "[JObj [(''system_id'', JStr ''agave''), (''id'', JStr ''Y'')]]",
      OF tok _ srch] srch
  show ?thesis
    by (simp add: apps_body_def)
qed

subsection \<open>C4\<close>

text \<open>
  Claim C4 as it is written does not hold for every status outside 200 to 299: with the
  token call answered 300 and a token in the body, the run does not stop; it makes the
  search call and the detail fetch.
\<close>

theorem token_status_300_goes_on:
  "ambiguous_terrain [token_request ''alice'' ''secret'']
     = Reply \<lparr>status_code = 300, json_body = Some token_body\<rparr>
   \<and> sent (snd (run ambiguous_terrain atom_render ''alice'' ''secret'')) =
       [token_request ''alice'' ''secret'', search_request (bearer_headers ''abc123''),
        detail_request (bearer_headers ''abc123'') ''https://de.cyverse.org/terrain/apps/de/X'']"
  by (simp add: run_eq ambiguous_terrain_def mock_eval) (simp add: reply_with_def)

text \<open>
  Claim C4, as the code has it. If the token endpoint answers with a client or server
  error status (400 to 599, for example 401), the run ends with the \<^verbatim>\<open>HTTPError\<close> of
  that status, and the token call is the only call made: neither the search nor the
  detail fetch is issued.
\<close>

theorem token_error_status_aborts:
  assumes "srv [token_request u p] = Reply r"
    and "400 \<le> status_code r" and "status_code r < 600"
  shows "run srv render u p =
     (Inl (HTTPError (status_code r)), \<lparr>sent = [token_request u p], printed = prompts\<rparr>)"
  using assms by (simp add: run_eq answer_json_err)

theorem token_error_status_aborts_witness:
  "unauthorized_terrain [token_request ''alice'' ''wrong'']
     = Reply \<lparr>status_code = 401, json_body = None\<rparr>
   \<and> run unauthorized_terrain atom_render ''alice'' ''wrong'' =
       (Inl (HTTPError 401), \<lparr>sent = [token_request ''alice'' ''wrong''], printed = prompts\<rparr>)"
proof -
  have a: "unauthorized_terrain [token_request ''alice'' ''wrong'']
      = Reply \<lparr>status_code = 401, json_body = None\<rparr>"
    by (simp add: unauthorized_terrain_def)
  from token_error_status_aborts [where srv = unauthorized_terrain and render = atom_render
      and u = "''alice''" and p = "''wrong''", OF a] a
  show ?thesis
    by simp
qed

subsection \<open>C5\<close>

text \<open>
  Claim C5. When the search is answered with success and an object whose \<^verbatim>\<open>apps\<close> is
  the empty list, taking its first element raises \<^verbatim>\<open>IndexError\<close>; the run ends
  there, after the token call and the search call, and no detail fetch is made.
\<close>

theorem empty_listing_index_error:
  assumes "answers_ok (srv [token_request u p]) (JObj kvs1)"
    and "map_of kvs1 ''access_token'' = Some (JStr t)"
    and "answers_ok (srv [token_request u p, search_request (bearer_headers t)]) (JObj kvs2)"
    and "map_of kvs2 ''apps'' = Some (JArr [])"
  shows "run srv render u p =
     (Inl IndexError,
      \<lparr>sent = [token_request u p, search_request (bearer_headers t)],
       printed = prompts @ [PPrint (JObj kvs2)]\<rparr>)"
proof -
  have "answer_json (srv [token_request u p]) = Inr (JObj kvs1)"
    using assms(1) by (rule answers_ok_json)
  moreover have "bearer_of (JObj kvs1) = Inr (bearer_headers t)"
    using assms(2) by (rule bearer_of_headers)
  moreover have "answer_json (srv [token_request u p, search_request (bearer_headers t)])
      = Inr (JObj kvs2)"
    using assms(3) by (rule answers_ok_json)
  moreover have "first_app (JObj kvs2) = Inl IndexError"
    using assms(4) by (simp add: first_app_def seq_index_0)
  ultimately show ?thesis
    by (simp add: run_eq)
qed

theorem empty_listing_index_error_witness:
  "answers_ok (empty_catalog [token_request ''alice'' ''secret'',
      search_request (bearer_headers ''abc123'')]) (JObj [(''apps'', JArr [])])
   \<and> run empty_catalog atom_render ''alice'' ''secret'' =
       (Inl IndexError,
        \<lparr>sent = [token_request ''alice'' ''secret'', search_request (bearer_headers ''abc123'')],
         printed = prompts @ [PPrint (JObj [(''apps'', JArr [])])]\<rparr>)"
proof -
  note tok = empty_catalog_token [of "token_request ''alice'' ''secret''", unfolded token_body_def]
  note srch = empty_catalog_search [of "token_request ''alice'' ''secret''"
      "search_request (bearer_headers ''abc123'')"]
  from empty_listing_index_error [where srv = empty_catalog and render = atom_render
      and u = "''alice''" and p = "''secret''" and t = "''abc123''", OF tok _ srch] srch
  show ?thesis
    by simp
qed

subsection \<open>C6\<close>



subsection \<open>C7\<close>

text \<open>
  Claim C7. When the token and the search succeed and the first search result has the
  values \<open>system_id\<close> and \<open>app_id\<close> under \<^verbatim>\<open>system_id\<close> and \<^verbatim>\<open>id\<close>, the third
  call is a GET with the bearer headers whose URL is
  \<^verbatim>\<open>https://de.cyverse.org/terrain/apps/\<close>, then \<^verbatim>\<open>str(system_id)\<close>, then a slash,
  then \<^verbatim>\<open>str(app_id)\<close>: the system identifier comes first, the app identifier second.
\<close>

theorem detail_url_shape:
  assumes "answers_ok (srv [token_request u p]) (JObj kvs)"
    and "map_of kvs ''access_token'' = Some (JStr t)"
    and "answers_ok (srv [token_request u p, search_request (bearer_headers t)]) j"
    and "getitem j (Name ''apps'') = Inr apps"
    and "getitem apps (Index 0) = Inr a"
    and "getitem a (Name ''system_id'') = Inr system_id"
    and "getitem a (Name ''id'') = Inr app_id"
  shows "sent (snd (run srv render u p)) =
           [token_request u p, search_request (bearer_headers t),
            \<lparr>meth = ''GET'',
             url = ''https://de.cyverse.org/terrain/apps/'' @ py_str render system_id @ ''/''
                     @ py_str render app_id,
             auth = None, headers = bearer_headers t, params = []\<rparr>]"
proof -
  have "first_app j = Inr (system_id, app_id)"
    using assms(4-7) by (rule first_app_getitem)
  from run_to_detail [OF assms(1-3) this, of render] show ?thesis
    by (simp add: detail_url_def detail_request_def)
qed

theorem detail_url_shape_witness:
  "getitem odd_body (Name ''apps'')
     = Inr (JArr [JObj [(''system_id'', JStr ''tapis''), (''id'', JNull)]])
   \<and> sent (snd (run odd_catalog atom_render ''alice'' ''secret'')) =
       [token_request ''alice'' ''secret'', search_request (bearer_headers ''abc123''),
        \<lparr>meth = ''GET'', url = ''https://de.cyverse.org/terrain/apps/tapis/None'',
         auth = None, headers = bearer_headers ''abc123'', params = []\<rparr>]"
proof -
  note tok = odd_catalog_token [of "token_request ''alice'' ''secret''", unfolded token_body_def]
  note srch = odd_catalog_search [of "token_request ''alice'' ''secret''"
      "search_request (bearer_headers ''abc123'')"]
  have apps: "getitem odd_body (Name ''apps'')
      = Inr (JArr [JObj [(''system_id'', JStr ''tapis''), (''id'', JNull)]])"
    by (simp add: odd_body_def)
  have first: "getitem (JArr [JObj [(''system_id'', JStr ''tapis''), (''id'', JNull :: int json)]])
      (Index 0) = Inr (JObj [(''system_id'', JStr ''tapis''), (''id'', JNull)])"
    by (simp add: seq_index_0)
  from detail_url_shape [where srv = odd_catalog and render = atom_render
      and u = "''alice''" and p = "''secret''" and t = "''abc123''"
      and system_id = "JStr ''tapis''" and app_id = JNull, OF tok _ srch apps first] apps
  show ?thesis
    by (simp add: py_str_def atom_render_def)
qed

subsection \<open>C8\<close>

text \<open>
  Claim C8. Whatever two strings are typed, the empty string included, the prompt cell
  returns them as they are, and the run makes exactly one call to the token endpoint: its
  first call, a GET with HTTP Basic authentication whose credentials are those two
  strings, with no headers and no query parameters.
\<close>

theorem token_call_basic_auth:
  "fst (cell_prompt u p w) = Inr (u, p)
   \<and> filter (\<lambda>rq. url rq = ''https://de.cyverse.org/terrain/token'')
        (sent (snd (run srv render u p)))
      = [\<lparr>meth = ''GET'', url = ''https://de.cyverse.org/terrain/token'',
          auth = Some (u, p), headers = [], params = []\<rparr>]
   \<and> hd (sent (snd (run srv render u p)))
      = \<lparr>meth = ''GET'', url = ''https://de.cyverse.org/terrain/token'',
          auth = Some (u, p), headers = [], params = []\<rparr>"
proof -
  obtain res w' where rw: "run srv render u p = (res, w')"
    by (cases "run srv render u p")
  have "filter (\<lambda>rq. url rq = ''https://de.cyverse.org/terrain/token'') (sent w')
      = [token_request u p] \<and> hd (sent w') = token_request u p"
    using rw
    by (cases rule: run_cases)
      (simp_all add: token_request_def search_request_def detail_request_def detail_url_def)
  with rw show ?thesis
    by (simp add: cell_prompt_eq token_request_def)
qed

theorem token_call_basic_auth_witness:
  "fst (cell_prompt [] [] \<lparr>sent = [], printed = [] :: int out list\<rparr>) = Inr ([], [])
   \<and> filter (\<lambda>rq. url rq = ''https://de.cyverse.org/terrain/token'')
        (sent (snd (run mock_terrain atom_render [] [])))
      = [\<lparr>meth = ''GET'', url = ''https://de.cyverse.org/terrain/token'',
          auth = Some ([], []), headers = [], params = []\<rparr>]
   \<and> hd (sent (snd (run mock_terrain atom_render [] [])))
      = \<lparr>meth = ''GET'', url = ''https://de.cyverse.org/terrain/token'',
          auth = Some ([], []), headers = [], params = []\<rparr>"
  by (rule token_call_basic_auth [where u = "[]" and p = "[]" and srv = mock_terrain
      and render = atom_render and w = "\<lparr>sent = [], printed = []\<rparr>"])

subsection \<open>C9\<close>

text \<open>
  Claim C9. Let the token call be answered with a status from 200 to 299 and the JSON
  body \<open>j\<close>. Then \<^verbatim>\<open>r.json()['access_token']\<close> yields a value if and only if \<open>j\<close> is
  an object that has the key \<^verbatim>\<open>access_token\<close>, and the token cell hands exactly that
  value to \<^verbatim>\<open>"Bearer " + token\<close>. For the run this means:
  \<^item> a run that gets beyond the token call had an object with the key as its body;
  \<^item> when \<open>j\<close> is an object without the key, the run ends with
    \<^verbatim>\<open>KeyError('access_token')\<close> after the token call, in spite of the status, and a
    run ends in this way only for such a body;
  \<^item> when \<open>j\<close> is an object that holds the string \<open>t\<close> under the key, the token is
    obtained and the next call is the search with the header \<^verbatim>\<open>"Bearer " + t\<close>;
  \<^item> when \<open>j\<close> is an object that holds a value under the key that is no string, the
    token is obtained too and the run ends at the next line with \<^verbatim>\<open>TypeError\<close>, not
    with \<^verbatim>\<open>KeyError\<close>;
  \<^item> when \<open>j\<close> is no object, the subscript raises \<^verbatim>\<open>TypeError\<close>.
\<close>

theorem token_needs_access_token_key:
  assumes "srv [token_request u p] = Reply r"
    and "200 \<le> status_code r" and "status_code r < 300"
    and "json_body r = Some j"
  shows "((\<exists>token. getitem j (Name ''access_token'') = Inr token)
            \<longleftrightarrow> (\<exists>kvs. j = JObj kvs \<and> map_of kvs ''access_token'' \<noteq> None))
       \<and> (1 < length (sent (snd (run srv render u p)))
            \<longrightarrow> (\<exists>kvs. j = JObj kvs \<and> map_of kvs ''access_token'' \<noteq> None))
       \<and> ((\<exists>kvs. j = JObj kvs \<and> map_of kvs ''access_token'' = None)
            \<longrightarrow> run srv render u p =
                  (Inl (KeyError (Name ''access_token'')),
                   \<lparr>sent = [token_request u p], printed = prompts\<rparr>))
       \<and> (\<forall>w. sent w = []
            \<longrightarrow> fst (cell_token srv u p w) =
                  (case getitem j (Name ''access_token'') of Inl e \<Rightarrow> Inl e
                   | Inr token \<Rightarrow> (case str_add ''Bearer '' token of Inl e \<Rightarrow> Inl e
                       | Inr v \<Rightarrow> Inr [(''Authorization'', v)])))
       \<and> (\<forall>kvs t. j = JObj kvs \<and> map_of kvs ''access_token'' = Some (JStr t)
            \<longrightarrow> (\<exists>rest. sent (snd (run srv render u p)) =
                  token_request u p # search_request [(''Authorization'', ''Bearer '' @ t)] # rest))
       \<and> (\<forall>kvs token. j = JObj kvs \<and> map_of kvs ''access_token'' = Some token
              \<and> (\<forall>t. token \<noteq> JStr t)
            \<longrightarrow> run srv render u p =
                  (Inl TypeError, \<lparr>sent = [token_request u p], printed = prompts\<rparr>))
       \<and> ((\<forall>kvs. j \<noteq> JObj kvs)
            \<longrightarrow> run srv render u p =
                  (Inl TypeError, \<lparr>sent = [token_request u p], printed = prompts\<rparr>))
       \<and> (run srv render u p =
              (Inl (KeyError (Name ''access_token'')),
               \<lparr>sent = [token_request u p], printed = prompts\<rparr>)
            \<longleftrightarrow> (\<exists>kvs. j = JObj kvs \<and> map_of kvs ''access_token'' = None))"
proof -
  have a: "answer_json (srv [token_request u p]) = Inr j"
    using assms by (simp add: answer_json_ok response_json_def)
  have g: "(\<exists>token. getitem j (Name ''access_token'') = Inr token)
            \<longleftrightarrow> (\<exists>kvs. j = JObj kvs \<and> map_of kvs ''access_token'' \<noteq> None)"
    by (cases j) (auto split: option.splits)
  have b: "\<exists>token. getitem j (Name ''access_token'') = Inr token" if "bearer_of j = Inr hs" for hs
    using that by (auto simp: bearer_of_def split: sum.splits)
  obtain res w where rw: "run srv render u p = (res, w)"
    by (cases "run srv render u p")
  from rw have beyond: "1 < length (sent w) \<longrightarrow> (\<exists>token. getitem j (Name ''access_token'') = Inr token)"
    by (cases rule: run_cases) (use a b in auto)
  have absent: "run srv render u p =
       (Inl (KeyError (Name ''access_token'')), \<lparr>sent = [token_request u p], printed = prompts\<rparr>)"
    if "j = JObj kvs" and "map_of kvs ''access_token'' = None" for kvs
    using a that by (simp add: run_eq bearer_of_def)
  have cell: "fst (cell_token srv u p w') =
       (case getitem j (Name ''access_token'') of Inl e \<Rightarrow> Inl e
        | Inr token \<Rightarrow> (case str_add ''Bearer '' token of Inl e \<Rightarrow> Inl e
            | Inr v \<Rightarrow> Inr [(''Authorization'', v)]))"
    if "sent w' = []" for w' :: "'a world"
    using a that by (simp add: cell_token_eq bearer_of_def)
  have string: "\<exists>rest. sent (snd (run srv render u p)) =
       token_request u p # search_request [(''Authorization'', ''Bearer '' @ t)] # rest"
    if "j = JObj kvs" and "map_of kvs ''access_token'' = Some (JStr t)" for kvs t
  proof -
    have h: "bearer_of j = Inr [(''Authorization'', ''Bearer '' @ t)]"
      using that by (simp add: bearer_of_token)
    from rw have "\<exists>rest. sent w =
        token_request u p # search_request [(''Authorization'', ''Bearer '' @ t)] # rest"
      by (cases rule: run_cases) (use a h in auto)
    with rw show ?thesis
      by simp
  qed
  have other: "run srv render u p =
       (Inl TypeError, \<lparr>sent = [token_request u p], printed = prompts\<rparr>)"
    if "j = JObj kvs" and "map_of kvs ''access_token'' = Some token" and "\<forall>t. token \<noteq> JStr t"
    for kvs token
  proof -
    have "str_add ''Bearer '' token = Inl TypeError"
      using that(3) by (cases token) (simp_all add: str_add_def)
    with that(1,2) have "bearer_of j = Inl TypeError"
      by (simp add: bearer_of_def)
    with a show ?thesis
      by (simp add: run_eq)
  qed
  have no_object: "run srv render u p =
       (Inl TypeError, \<lparr>sent = [token_request u p], printed = prompts\<rparr>)"
    if "\<forall>kvs. j \<noteq> JObj kvs"
  proof -
    have "getitem j (Name ''access_token'') = Inl TypeError"
      using that by (cases j) simp_all
    then have "bearer_of j = Inl TypeError"
      by (simp add: bearer_of_def)
    with a show ?thesis
      by (simp add: run_eq)
  qed
  have key_error: "\<exists>kvs. j = JObj kvs \<and> map_of kvs ''access_token'' = None"
    if "run srv render u p =
       (Inl (KeyError (Name ''access_token'')), \<lparr>sent = [token_request u p], printed = prompts\<rparr>)"
  proof (cases j)
    case (JObj kvs)
    show ?thesis
    proof (cases "map_of kvs ''access_token''")
      case None
      with JObj show ?thesis by simp
    next
      case (Some token)
      show ?thesis
      proof (cases "\<exists>t. token = JStr t")
        case True
        then obtain t where "token = JStr t" ..
        with JObj Some string [of kvs t] that show ?thesis
          by auto
      next
        case False
        with JObj Some other [of kvs token] that show ?thesis
          by simp
      qed
    qed
  qed (use no_object that in simp_all)
  have first: "1 < length (sent (snd (run srv render u p)))
      \<longrightarrow> (\<exists>kvs. j = JObj kvs \<and> map_of kvs ''access_token'' \<noteq> None)"
    using beyond g rw by simp
  have third: "(\<exists>kvs. j = JObj kvs \<and> map_of kvs ''access_token'' = None)
      \<longrightarrow> run srv render u p =
        (Inl (KeyError (Name ''access_token'')), \<lparr>sent = [token_request u p], printed = prompts\<rparr>)"
  proof (intro impI, elim exE conjE)
    fix kvs
    assume "j = JObj kvs" and "map_of kvs ''access_token'' = None"
    then show "run srv render u p =
        (Inl (KeyError (Name ''access_token'')), \<lparr>sent = [token_request u p], printed = prompts\<rparr>)"
      by (rule absent)
  qed
  have fourth: "\<forall>w. sent w = []
      \<longrightarrow> fst (cell_token srv u p w) =
        (case getitem j (Name ''access_token'') of Inl e \<Rightarrow> Inl e
         | Inr token \<Rightarrow> (case str_add ''Bearer '' token of Inl e \<Rightarrow> Inl e
             | Inr v \<Rightarrow> Inr [(''Authorization'', v)]))"
    by (intro allI impI) (rule cell)
  have fifth: "\<forall>kvs t. j = JObj kvs \<and> map_of kvs ''access_token'' = Some (JStr t)
      \<longrightarrow> (\<exists>rest. sent (snd (run srv render u p)) =
        token_request u p # search_request [(''Authorization'', ''Bearer '' @ t)] # rest)"
  proof (intro allI impI, elim conjE)
    fix kvs t
    assume "j = JObj kvs" and "map_of kvs ''access_token'' = Some (JStr t)"
    then show "\<exists>rest. sent (snd (run srv render u p)) =
        token_request u p # search_request [(''Authorization'', ''Bearer '' @ t)] # rest"
      by (rule string)
  qed
  have sixth: "\<forall>kvs token. j = JObj kvs \<and> map_of kvs ''access_token'' = Some token
        \<and> (\<forall>t. token \<noteq> JStr t)
      \<longrightarrow> run srv render u p =
        (Inl TypeError, \<lparr>sent = [token_request u p], printed = prompts\<rparr>)"
  proof (intro allI impI, elim conjE)
    fix kvs token
    assume "j = JObj kvs" and "map_of kvs ''access_token'' = Some token"
      and "\<forall>t. token \<noteq> JStr t"
    then show "run srv render u p =
        (Inl TypeError, \<lparr>sent = [token_request u p], printed = prompts\<rparr>)"
      by (rule other)
  qed
  have seventh: "(\<forall>kvs. j \<noteq> JObj kvs)
      \<longrightarrow> run srv render u p =
        (Inl TypeError, \<lparr>sent = [token_request u p], printed = prompts\<rparr>)"
    by (intro impI) (rule no_object)
  have eighth: "run srv render u p =
        (Inl (KeyError (Name ''access_token'')), \<lparr>sent = [token_request u p], printed = prompts\<rparr>)
      \<longleftrightarrow> (\<exists>kvs. j = JObj kvs \<and> map_of kvs ''access_token'' = None)"
  proof
    assume "run srv render u p =
        (Inl (KeyError (Name ''access_token'')), \<lparr>sent = [token_request u p], printed = prompts\<rparr>)"
    then show "\<exists>kvs. j = JObj kvs \<and> map_of kvs ''access_token'' = None"
      by (rule key_error)
  next
    assume "\<exists>kvs. j = JObj kvs \<and> map_of kvs ''access_token'' = None"
    with third show "run srv render u p =
        (Inl (KeyError (Name ''access_token'')), \<lparr>sent = [token_request u p], printed = prompts\<rparr>)"
      by (rule mp)
  qed
  show ?thesis
    by (intro conjI; fact g first third fourth fifth sixth seventh eighth)
qed

theorem token_needs_access_token_key_witness:
  "run keyless_terrain atom_render ''alice'' ''secret'' =
       (Inl (KeyError (Name ''access_token'')),
        \<lparr>sent = [token_request ''alice'' ''secret''], printed = prompts\<rparr>)
   \<and> (\<exists>rest. sent (snd (run mock_terrain atom_render ''alice'' ''secret'')) =
        token_request ''alice'' ''secret''
          # search_request [(''Authorization'', ''Bearer abc123'')] # rest)
   \<and> run null_token_terrain atom_render ''alice'' ''secret'' =
       (Inl TypeError, \<lparr>sent = [token_request ''alice'' ''secret''], printed = prompts\<rparr>)"
proof -
  let ?c = "token_request ''alice'' ''secret''"
  have a: "keyless_terrain [?c]
      = Reply \<lparr>status_code = 200, json_body = Some (JObj [(''error'', JStr ''try again'')])\<rparr>"
    by (simp add: keyless_terrain_def reply_with_def)
  have b: "mock_terrain [?c]
      = Reply \<lparr>status_code = 200, json_body = Some (JObj [(''access_token'', JStr ''abc123'')])\<rparr>"
    by (simp add: mock_terrain_def reply_with_def token_body_def)
  have c: "null_token_terrain [?c]
      = Reply \<lparr>status_code = 200, json_body = Some (JObj [(''access_token'', JNull)])\<rparr>"
    by (simp add: null_token_terrain_def reply_with_def)
  have absent: "run keyless_terrain atom_render ''alice'' ''secret'' =
       (Inl (KeyError (Name ''access_token'')), \<lparr>sent = [?c], printed = prompts\<rparr>)"
    using token_needs_access_token_key [where srv = keyless_terrain and render = atom_render
      and u = "''alice''" and p = "''secret''"
      and j = "JObj [(''error'', JStr ''try again'')]", OF a]
    by simp
  have present: "\<exists>rest. sent (snd (run mock_terrain atom_render ''alice'' ''secret'')) =
       ?c # search_request [(''Authorization'', ''Bearer abc123'')] # rest"
    using token_needs_access_token_key [where srv = mock_terrain and render = atom_render
      and u = "''alice''" and p = "''secret''"
      and j = "JObj [(''access_token'', JStr ''abc123'')]", OF b]
    by simp
  have null: "run null_token_terrain atom_render ''alice'' ''secret'' =
       (Inl TypeError, \<lparr>sent = [?c], printed = prompts\<rparr>)"
    using token_needs_access_token_key [where srv = null_token_terrain and render = atom_render
      and u = "''alice''" and p = "''secret''"
      and j = "JObj [(''access_token'', JNull)]", OF c]
    by simp
  from absent present null show ?thesis
    by (intro conjI)
qed

subsection \<open>C10\<close>

text \<open>
  Claim C10. The system identifier of the first search result is not checked against
  \<^verbatim>\<open>de\<close> and \<^verbatim>\<open>agave\<close>: for every string \<open>s\<close> found under \<^verbatim>\<open>system_id\<close>, the
  detail fetch is made, and its URL holds \<open>s\<close> as it is between
  \<^verbatim>\<open>https://de.cyverse.org/terrain/apps/\<close> and the slash before the app identifier.
\<close>

theorem system_id_not_validated:
  assumes "answers_ok (srv [token_request u p]) (JObj kvs1)"
    and "map_of kvs1 ''access_token'' = Some (JStr t)"
    and "answers_ok (srv [token_request u p, search_request (bearer_headers t)]) (JObj kvs2)"
    and "map_of kvs2 ''apps'' = Some (JArr (JObj entry # others))"
    and "map_of entry ''system_id'' = Some (JStr s)"
    and "map_of entry ''id'' = Some app_id"
  shows "length (sent (snd (run srv render u p))) = 3
       \<and> url (last (sent (snd (run srv render u p)))) =
           ''https://de.cyverse.org/terrain/apps/'' @ s @ ''/'' @ py_str render app_id"
proof -
  have "first_app (JObj kvs2) = Inr (JStr s, app_id)"
    using assms(5,6) by (simp add: first_app_head [OF assms(4)])
  from run_to_detail [OF assms(1-3) this, of render] show ?thesis
    by (simp add: detail_url_def detail_request_def py_str_def)
qed

theorem system_id_not_validated_witness:
  "answers_ok (odd_catalog [token_request ''alice'' ''secret'',
        search_request (bearer_headers ''abc123'')]) odd_body
   \<and> length (sent (snd (run odd_catalog atom_render ''alice'' ''secret''))) = 3
   \<and> url (last (sent (snd (run odd_catalog atom_render ''alice'' ''secret'')))) =
       ''https://de.cyverse.org/terrain/apps/tapis/None''"
proof -
  note tok = odd_catalog_token [of "token_request ''alice'' ''secret''", unfolded token_body_def]
  note srch = odd_catalog_search [of "token_request ''alice'' ''secret''"
      "search_request (bearer_headers ''abc123'')"]
  from system_id_not_validated [where srv = odd_catalog and render = atom_render
      and u = "''alice''" and p = "''secret''" and t = "''abc123''" and s = "''tapis''"
      and app_id = JNull and entry = "[(''system_id'', JStr ''tapis''), (''id'', JNull)]"
      and others = "[]", OF tok _ srch [unfolded odd_body_def]] srch
  show ?thesis
    by (simp add: py_str_def atom_render_def)
qed

end
